theory Spec2Isabelle
  imports Complex_Main
begin

section \<open>Evaluation framework for feature selection (evaluation\_framework.py)\<close>

text \<open>
  The Python source works on floats; they are modelled as \<^typ>\<open>real\<close>, so every
  arithmetic step is exact. Python sets of feature indices are \<^typ>\<open>int set\<close>, Python
  lists are HOL lists, and every exception the source can raise is a value of
  \<open>py_error\<close>, returned as \<open>Inl\<close>.
\<close>

text \<open>
  \<open>ZeroDivisionError\<close>, \<open>ValueError\<close>, \<open>KeyError\<close> and \<open>NameError\<close> are the Python
  exceptions that statements of the source can raise. \<open>InsufficientDataError\<close>,
  \<open>EmptySelectionError\<close> and \<open>InvalidGroundTruth\<close> are the error names of the
  specification; the source defines no exception class and has no \<open>raise\<close> statement,
  so no definition below returns them.
\<close>

datatype py_error =
    ZeroDivisionError | ValueError | KeyError | NameError
  | InsufficientDataError | EmptySelectionError | InvalidGroundTruth

subsection \<open>Pairwise consistency index\<close>

text \<open>
  \<^verbatim>\<open>
  observed = float(len(sel1.intersection(sel2)))
  expected = len(sel1) * len(sel2) / float(num_features)
  maxposbl = float(min(len(sel1), len(sel2)))
  cidx = 0.
  if expected != maxposbl:
      cidx = (observed - expected) / (maxposbl - expected)
  return cidx
  \<close>
  A float division by zero raises \<open>ZeroDivisionError\<close> in Python.
\<close>

definition consistency_index :: "int set \<Rightarrow> int set \<Rightarrow> int \<Rightarrow> py_error + real" where
  "consistency_index sel1 sel2 num_features =
     (let observed = real (card (sel1 \<inter> sel2)) in
      if real_of_int num_features = 0 then Inl ZeroDivisionError
      else
        let expected = real (card sel1 * card sel2) / real_of_int num_features;
            maxposbl = real (min (card sel1) (card sel2))
        in if expected \<noteq> maxposbl
           then (if maxposbl - expected = 0 then Inl ZeroDivisionError
                 else Inr ((observed - expected) / (maxposbl - expected)))
           else Inr 0)"

subsection \<open>k-way consistency index\<close>

text \<open>
  \<^verbatim>\<open>
  cidx = 0.
  for k1, sel1 in enumerate(sel_list[:-1]):
      for sel2 in sel_list[k1+1:]:
          cidx += consistency_index(set(sel1), set(sel2), num_features)
  cidx = 2. / (len(sel_list) * (len(sel_list) - 1)) * cidx
  return cidx
  \<close>
  The two loops are recursions over the lists they iterate; an exception raised by a
  call of \<open>consistency_index\<close> leaves both loops. \<open>sel_list[:-1]\<close> is \<open>butlast\<close>
  (the empty list for an empty \<open>sel_list\<close>) and \<open>sel_list[k1+1:]\<close> is \<open>drop (k1 + 1)\<close>.
\<close>

fun inner_loop :: "int list \<Rightarrow> int list list \<Rightarrow> int \<Rightarrow> real \<Rightarrow> py_error + real" where
  "inner_loop sel1 [] num_features cidx = Inr cidx"
| "inner_loop sel1 (sel2 # rest) num_features cidx =
     (case consistency_index (set sel1) (set sel2) num_features of
        Inl e \<Rightarrow> Inl e
      | Inr c \<Rightarrow> inner_loop sel1 rest num_features (cidx + c))"

fun outer_loop :: "int list list \<Rightarrow> (nat \<times> int list) list \<Rightarrow> int \<Rightarrow> real \<Rightarrow> py_error + real" where
  "outer_loop sel_list [] num_features cidx = Inr cidx"
| "outer_loop sel_list ((k1, sel1) # rest) num_features cidx =
     (case inner_loop sel1 (drop (k1 + 1) sel_list) num_features cidx of
        Inl e \<Rightarrow> Inl e
      | Inr c \<Rightarrow> outer_loop sel_list rest num_features c)"

definition consistency_index_k :: "int list list \<Rightarrow> int \<Rightarrow> py_error + real" where
  "consistency_index_k sel_list num_features =
     (case outer_loop sel_list (enumerate 0 (butlast sel_list)) num_features 0 of
        Inl e \<Rightarrow> Inl e
      | Inr cidx \<Rightarrow>
          let k = int (length sel_list) in
          if real_of_int (k * (k - 1)) = 0 then Inl ZeroDivisionError
          else Inr (2 / real_of_int (k * (k - 1)) * cidx))"

subsection \<open>Solver adapters: parsing the solver's standard output\<close>

text \<open>
  The external solver process is outside the model; the text it writes to its standard
  output (\<open>p.communicate()[0]\<close>) is a parameter of each adapter.

  \<open>split_on sep s\<close> is Python's \<open>s.split(sep)\<close> for a one-character separator: empty
  pieces are kept, and the empty string gives one empty piece.
\<close>

fun split_on :: "char \<Rightarrow> string \<Rightarrow> string list" where
  "split_on sep [] = [[]]"
| "split_on sep (c # cs) =
     (if c = sep then [] # split_on sep cs
      else (case split_on sep cs of
              [] \<Rightarrow> [[c]]
            | w # ws \<Rightarrow> (c # w) # ws))"

text \<open>
  \<open>split_ws s\<close> is Python's \<open>s.split()\<close>: runs of whitespace (space, tab, line feed,
  vertical tab, form feed, carriage return) separate the words and no empty word is
  produced. The first argument collects the current word in reverse.
\<close>

definition is_space :: "char \<Rightarrow> bool" where
  "is_space c = (c = CHR '' '' \<or> c = CHR 0x09 \<or> c = CHR 0x0A \<or> c = CHR 0x0B
                 \<or> c = CHR 0x0C \<or> c = CHR 0x0D)"

fun words_acc :: "string \<Rightarrow> string \<Rightarrow> string list" where
  "words_acc w [] = (if w = [] then [] else [rev w])"
| "words_acc w (c # cs) =
     (if is_space c then (if w = [] then words_acc [] cs else rev w # words_acc [] cs)
      else words_acc (c # w) cs)"

definition split_ws :: "string \<Rightarrow> string list" where
  "split_ws s = words_acc [] s"

text \<open>
  \<open>py_int s\<close> is Python's \<open>int(s)\<close> on a word without whitespace: an optional sign
  and at least one decimal digit, \<open>ValueError\<close> otherwise.
\<close>

definition digit_val :: "char \<Rightarrow> nat option" where
  "digit_val c =
     map_of [(CHR ''0'', 0), (CHR ''1'', 1), (CHR ''2'', 2), (CHR ''3'', 3), (CHR ''4'', 4),
             (CHR ''5'', 5), (CHR ''6'', 6), (CHR ''7'', 7), (CHR ''8'', 8), (CHR ''9'', 9)] c"

fun digits_val :: "nat \<Rightarrow> string \<Rightarrow> nat option" where
  "digits_val acc [] = Some acc"
| "digits_val acc (c # cs) =
     (case digit_val c of None \<Rightarrow> None | Some d \<Rightarrow> digits_val (10 * acc + d) cs)"

definition unsigned_int :: "string \<Rightarrow> py_error + int" where
  "unsigned_int ds =
     (if ds = [] then Inl ValueError
      else (case digits_val 0 ds of None \<Rightarrow> Inl ValueError | Some v \<Rightarrow> Inr (int v)))"

definition py_int :: "string \<Rightarrow> py_error + int" where
  "py_int s =
     (case s of
        [] \<Rightarrow> Inl ValueError
      | c # cs \<Rightarrow>
          if c = CHR ''-'' then (case unsigned_int cs of Inl e \<Rightarrow> Inl e | Inr v \<Rightarrow> Inr (- v))
          else if c = CHR ''+'' then unsigned_int cs
          else unsigned_int s)"

text \<open>
  \<open>py_slice xs i j\<close> is Python's \<open>xs[i:j]\<close>: a negative bound counts from the end and
  every bound is clipped to the list.
\<close>

definition py_slice :: "'a list \<Rightarrow> int \<Rightarrow> int \<Rightarrow> 'a list" where
  "py_slice xs i j =
     (let n = int (length xs);
          a = (if i < 0 then max 0 (n + i) else min i n);
          b = (if j < 0 then max 0 (n + j) else min j n)
      in take (nat (b - a)) (drop (nat a) xs))"

text \<open>A list comprehension whose body can raise: the first exception ends it.\<close>

fun map_err :: "('a \<Rightarrow> py_error + 'b) \<Rightarrow> 'a list \<Rightarrow> py_error + 'b list" where
  "map_err f [] = Inr []"
| "map_err f (x # xs) =
     (case f x of
        Inl e \<Rightarrow> Inl e
      | Inr y \<Rightarrow> (case map_err f xs of Inl e \<Rightarrow> Inl e | Inr ys \<Rightarrow> Inr (y # ys)))"

text \<open>
  \<^verbatim>\<open>sel_list = [[(int(x)-1) for x in line.split()] for line in p_out]\<close>
\<close>

definition parse_line :: "string \<Rightarrow> py_error + int list" where
  "parse_line line =
     map_err (\<lambda>x. case py_int x of Inl e \<Rightarrow> Inl e | Inr v \<Rightarrow> Inr (v - 1)) (split_ws line)"

definition parse_lines :: "string list \<Rightarrow> py_error + int list list" where
  "parse_lines p_out = map_err parse_line p_out"

text \<open>
  What an adapter gives back: the list it returns and whether it stopped in the
  interactive debugger on the way.
  \<^verbatim>\<open>
  if not sel_list :
      print "returned sel_list empty !! param = ", params
      import pdb ; pdb.set_trace()
  return sel_list
  \<close>
  \<open>pdb_entered\<close> records that \<open>pdb.set_trace()\<close> ran (the message is printed exactly
  then); once the debugger session is left, the function returns \<open>sel_list\<close>.
\<close>

record adapter_result =
  selected :: "int list list"
  pdb_entered :: bool

definition check_sel_list :: "int list list \<Rightarrow> adapter_result" where
  "check_sel_list sel_list = \<lparr>selected = sel_list, pdb_entered = (sel_list = [])\<rparr>"

text \<open>
  \<open>run_sfan\<close>: \<^verbatim>\<open>p_out = p.communicate()[0].split("\n")[2:2+num_tasks]\<close>;
  \<open>run_msfan_nocorr\<close> and \<open>run_msfan\<close>: \<^verbatim>\<open>[3:3+num_tasks]\<close>.
\<close>

definition run_sfan :: "int \<Rightarrow> string \<Rightarrow> py_error + adapter_result" where
  "run_sfan num_tasks stdout =
     (let p_out = py_slice (split_on (CHR 0x0A) stdout) 2 (2 + num_tasks)
      in case parse_lines p_out of Inl e \<Rightarrow> Inl e | Inr sel_list \<Rightarrow> Inr (check_sel_list sel_list))"

definition run_msfan_nocorr :: "int \<Rightarrow> string \<Rightarrow> py_error + adapter_result" where
  "run_msfan_nocorr num_tasks stdout =
     (let p_out = py_slice (split_on (CHR 0x0A) stdout) 3 (3 + num_tasks)
      in case parse_lines p_out of Inl e \<Rightarrow> Inl e | Inr sel_list \<Rightarrow> Inr (check_sel_list sel_list))"

definition run_msfan :: "int \<Rightarrow> string \<Rightarrow> py_error + adapter_result" where
  "run_msfan num_tasks stdout =
     (let p_out = py_slice (split_on (CHR 0x0A) stdout) 3 (3 + num_tasks)
      in case parse_lines p_out of Inl e \<Rightarrow> Inl e | Inr sel_list \<Rightarrow> Inr (check_sel_list sel_list))"

subsection \<open>Cross-validation folds and subsample indices\<close>

text \<open>
  Modelled from the spec: \<open>KFold\<close> is \<open>sklearn.cross_validation.KFold\<close>, a library class
  that the source imports and that is not part of it. The source calls it without
  \<open>shuffle\<close> and without \<open>random_state\<close>, so the folding scheme is the contiguous one:
  the sample indices \<open>0, \<dots>, n - 1\<close> are cut into \<open>n_folds\<close> consecutive partitions, the
  first \<open>n mod n_folds\<close> of them one index longer than the others; for fold \<open>i\<close> the test
  indices are partition \<open>i\<close> and the training indices are all the others, in increasing
  order. It fails (\<open>ValueError\<close>) if \<open>n_folds < 2\<close> or \<open>n_folds > n\<close>.
\<close>

fun kfold_iter :: "nat \<Rightarrow> nat list \<Rightarrow> nat \<Rightarrow> (nat list \<times> nat list) list" where
  "kfold_iter n [] current = []"
| "kfold_iter n (fold_size # fold_sizes) current =
     (let start = current; stop = current + fold_size
      in ([0..<start] @ [stop..<n], [start..<stop]) # kfold_iter n fold_sizes stop)"

definition KFold :: "int \<Rightarrow> int \<Rightarrow> py_error + (nat list \<times> nat list) list" where
  "KFold n n_folds =
     (if n_folds \<le> 1 then Inl ValueError
      else if n_folds > n then Inl ValueError
      else
        let fold_sizes =
              map (\<lambda>i. nat (n div n_folds) + (if int i < n mod n_folds then 1 else 0))
                [0..<nat n_folds]
        in Inr (kfold_iter (nat n) fold_sizes 0))"

text \<open>
  The \<open>Framework\<close> object. \<open>xp_indices\<close> maps a fold index to its entry; \<open>trIndices\<close>
  and \<open>teIndices\<close> are \<open>None\<close> until \<open>compute_indices\<close> has run.
  \<^verbatim>\<open>
  def __init__(self, num_samples, num_folds, num_subsamples):
      self.num_samples = num_samples
      self.num_folds = num_folds
      self.num_subsamples = num_subsamples
      self.xp_indices = {key: {'trIndices': None, 'teIndices':None, 'ssIndices':list()}
                         for key in xrange(num_folds)}
  \<close>
\<close>

record fold_entry =
  trIndices :: "nat list option"
  teIndices :: "nat list option"
  ssIndices :: "nat list list"

record framework =
  num_samples :: int
  num_folds :: int
  num_subsamples :: int
  xp_indices :: "nat \<rightharpoonup> fold_entry"

definition Framework :: "int \<Rightarrow> int \<Rightarrow> int \<Rightarrow> framework" where
  "Framework n_samples n_folds n_subsamples =
     \<lparr>num_samples = n_samples, num_folds = n_folds, num_subsamples = n_subsamples,
      xp_indices = (\<lambda>key. if int key < n_folds
                           then Some \<lparr>trIndices = None, teIndices = None, ssIndices = []\<rparr>
                           else None)\<rparr>"

text \<open>
  \<^verbatim>\<open>
  def compute_indices(self, seed=None):
      kf = KFold(self.num_samples, n_folds=self.num_folds)
      for i, (train_index, test_index) in enumerate(kf):
          self.xp_indices[i]['trIndices'] = train_index.tolist()
          self.xp_indices[i]['teIndices'] = test_index.tolist()
          # For each train set, generate self.num_subsamples subsample sets of indices
          ss = KFold(self.num_samples, n_folds=self.num_folds)
          for train_index, test_index in ss:
              self.xp_indices[i]['ssIndices'].append(train_index.tolist())
  \<close>
  The object is passed in and returned updated. \<open>ss_loop\<close> is the inner loop (it appends
  to the fold's \<open>ssIndices\<close>), \<open>fold_loop\<close> the outer one; \<open>self.xp_indices[i]\<close> raises
  \<open>KeyError\<close> for a missing fold index.
\<close>

fun ss_loop :: "(nat list \<times> nat list) list \<Rightarrow> nat list list \<Rightarrow> nat list list" where
  "ss_loop [] ss_indices = ss_indices"
| "ss_loop ((train_index, test_index) # ss) ss_indices =
     ss_loop ss (ss_indices @ [train_index])"

fun fold_loop ::
  "framework \<Rightarrow> (nat \<times> nat list \<times> nat list) list \<Rightarrow> py_error + framework" where
  "fold_loop self [] = Inr self"
| "fold_loop self ((i, train_index, test_index) # kf) =
     (case xp_indices self i of
        None \<Rightarrow> Inl KeyError
      | Some entry \<Rightarrow>
          (case KFold (num_samples self) (num_folds self) of
             Inl e \<Rightarrow> Inl e
           | Inr ss \<Rightarrow>
               fold_loop
                 (self\<lparr>xp_indices := (xp_indices self)
                    (i \<mapsto> \<lparr>trIndices = Some train_index, teIndices = Some test_index,
                            ssIndices = ss_loop ss (ssIndices entry)\<rparr>)\<rparr>)
                 kf))"

definition compute_indices :: "framework \<Rightarrow> int option \<Rightarrow> py_error + framework" where
  "compute_indices self seed =
     (case KFold (num_samples self) (num_folds self) of
        Inl e \<Rightarrow> Inl e
      | Inr kf \<Rightarrow> fold_loop self (enumerate 0 kf))"

text \<open>The entry of fold \<open>i\<close> after \<open>compute_indices\<close>, when both succeed.\<close>

definition fold_after :: "framework \<Rightarrow> int option \<Rightarrow> nat \<Rightarrow> fold_entry option" where
  "fold_after self seed i =
     (case compute_indices self seed of Inl e \<Rightarrow> None | Inr self' \<Rightarrow> xp_indices self' i)"

subsection \<open>Selecting the optimal hyperparameters\<close>




subsection \<open>PPV and sensitivity\<close>

text \<open>
  \<^verbatim>\<open>
  def compute_ppv_sensitivity(causal_fname, selected_list):
      # TODO (use sklearn.metrics)
      return ppv_list, tpr_list
  \<close>
  The body is the \<open>return\<close> statement alone; neither name is bound in the function or
  in the module, so evaluating \<open>ppv_list\<close> raises \<open>NameError\<close> for every argument.
\<close>

definition compute_ppv_sensitivity ::
  "string \<Rightarrow> int list list \<Rightarrow> py_error + real list \<times> real list" where
  "compute_ppv_sensitivity causal_fname selected_list = Inl NameError"

subsection \<open>Notions used to state the properties\<close>

text \<open>
  None of the following is a function of the source; they name what the statements
  below talk about.

  \<open>data_lines h m stdout\<close>: the \<open>m\<close> lines that follow the first \<open>h\<close> lines of the
  solver's output. \<open>zero_based ls\<close>: every word of every line read as a decimal integer
  and decreased by 1. \<open>well_formed h m stdout\<close>: the output has at least \<open>h + m\<close> lines
  and every word of its \<open>m\<close> data lines is an integer literal.
\<close>

definition data_lines :: "nat \<Rightarrow> nat \<Rightarrow> string \<Rightarrow> string list" where
  "data_lines h m stdout = take m (drop h (split_on (CHR 0x0A) stdout))"

definition zero_based :: "string list \<Rightarrow> int list list" where
  "zero_based ls = map (\<lambda>line. map (\<lambda>x. projr (py_int x) - 1) (split_ws line)) ls"

definition well_formed :: "nat \<Rightarrow> nat \<Rightarrow> string \<Rightarrow> bool" where
  "well_formed h m stdout \<longleftrightarrow>
     h + m \<le> length (split_on (CHR 0x0A) stdout)
     \<and> (\<forall>line\<in>set (data_lines h m stdout). \<forall>x\<in>set (split_ws line). \<exists>v. py_int x = Inr v)"




subsection \<open>Theorems\<close>



subsection \<open>The k-way index is the mean of the pairwise indices\<close>












text \<open>
  C7 (as the source has it). With fewer than two selections no pair is visited and the
  final normalisation \<open>2. / (len(sel_list) * (len(sel_list) - 1))\<close> divides by zero:
  the call fails with Python's \<open>ZeroDivisionError\<close>, which propagates to the caller.
\<close>

theorem consistency_index_k_too_few:
  assumes "length sel_list < 2"
  shows "consistency_index_k sel_list n = Inl ZeroDivisionError"
proof (cases sel_list)
  case Nil
  then show ?thesis by (simp add: consistency_index_k_def)
next
  case (Cons a rest)
  then have "rest = []" using assms by simp
  then show ?thesis using Cons by (simp add: consistency_index_k_def)
qed

theorem consistency_index_k_too_few_witness:
  "length [[1, 2, 3 :: int]] < 2 \<and> consistency_index_k [[1, 2, 3]] 10 = Inl ZeroDivisionError"
  using consistency_index_k_too_few [of "[[1, 2, 3]]" 10] by simp

text \<open>
  The error of a one-element list is not the \<open>InsufficientDataError\<close> of the
  specification.
\<close>

theorem consistency_index_k_error_counterexample:
  "consistency_index_k [[1, 2, 3]] 10 \<noteq> Inl InsufficientDataError"
  by (simp add: consistency_index_k_def)

subsection \<open>The adapters on the solver's output\<close>

lemma py_slice_nat: "py_slice xs (int h) (int h + int m) = take m (drop h xs)"
proof (cases "h \<le> length xs")
  case True
  show ?thesis
  proof (cases "h + m \<le> length xs")
    case True
    then show ?thesis by (simp add: py_slice_def Let_def min_def)
  next
    case False
    then have "nat (int (length xs) - int h) = length xs - h" by simp
    then show ?thesis
      using False \<open>h \<le> length xs\<close> by (simp add: py_slice_def Let_def min_def)
  qed
next
  case False
  then show ?thesis by (simp add: py_slice_def Let_def min_def)
qed

lemma map_err_all_Inr:
  "\<forall>x\<in>set xs. \<exists>y. f x = Inr y \<Longrightarrow> map_err f xs = Inr (map (\<lambda>x. projr (f x)) xs)"
proof (induction xs)
  case Nil
  show ?case by simp
next
  case (Cons x xs)
  obtain y where "f x = Inr y" using Cons.prems by auto
  then show ?case using Cons by simp
qed

lemma parse_line_ok:
  assumes "\<forall>x\<in>set (split_ws line). \<exists>v. py_int x = Inr v"
  shows "parse_line line = Inr (map (\<lambda>x. projr (py_int x) - 1) (split_ws line))"
proof -
  let ?f = "\<lambda>x. case py_int x of Inl e \<Rightarrow> Inl e | Inr v \<Rightarrow> Inr (v - 1)"
  have a: "\<forall>x\<in>set (split_ws line). \<exists>y. ?f x = Inr y" using assms by auto
  have b: "map (\<lambda>x. projr (?f x)) (split_ws line)
         = map (\<lambda>x. projr (py_int x) - 1) (split_ws line)"
    using assms by (intro map_cong) auto
  show ?thesis unfolding parse_line_def map_err_all_Inr [OF a] b ..
qed

lemma parse_lines_ok:
  assumes "\<forall>line\<in>set ls. \<forall>x\<in>set (split_ws line). \<exists>v. py_int x = Inr v"
  shows "parse_lines ls = Inr (zero_based ls)"
proof -
  have a: "\<forall>line\<in>set ls. \<exists>y. parse_line line = Inr y" using assms parse_line_ok by blast
  have b: "map (\<lambda>l. projr (parse_line l)) ls = zero_based ls"
    unfolding zero_based_def using assms by (intro map_cong) (simp_all add: parse_line_ok)
  show ?thesis unfolding parse_lines_def map_err_all_Inr [OF a] b ..
qed

lemma checked_data_lines:
  assumes "well_formed h m stdout"
  shows "(case parse_lines (data_lines h m stdout) of
            Inl e \<Rightarrow> Inl e
          | Inr sel_list \<Rightarrow> Inr (check_sel_list sel_list))
         = Inr \<lparr>selected = zero_based (data_lines h m stdout), pdb_entered = (m = 0)\<rparr>"
proof -
  have p: "parse_lines (data_lines h m stdout) = Inr (zero_based (data_lines h m stdout))"
    using assms by (intro parse_lines_ok) (simp add: well_formed_def)
  have "length (zero_based (data_lines h m stdout)) = m"
    using assms by (auto simp: zero_based_def well_formed_def data_lines_def)
  then have "(zero_based (data_lines h m stdout) = []) = (m = 0)" by auto
  then show ?thesis by (simp add: p check_sel_list_def)
qed

lemma run_sfan_ok:
  assumes "well_formed 2 m stdout"
  shows "run_sfan (int m) stdout =
           Inr \<lparr>selected = zero_based (data_lines 2 m stdout), pdb_entered = (m = 0)\<rparr>"
proof -
  have s: "py_slice (split_on (CHR 0x0A) stdout) 2 (2 + int m) = data_lines 2 m stdout"
    using py_slice_nat [of "split_on (CHR 0x0A) stdout" 2 m] by (simp add: data_lines_def)
  show ?thesis unfolding run_sfan_def Let_def s by (rule checked_data_lines [OF assms])
qed

lemma run_msfan_nocorr_ok:
  assumes "well_formed 3 m stdout"
  shows "run_msfan_nocorr (int m) stdout =
           Inr \<lparr>selected = zero_based (data_lines 3 m stdout), pdb_entered = (m = 0)\<rparr>"
proof -
  have s: "py_slice (split_on (CHR 0x0A) stdout) 3 (3 + int m) = data_lines 3 m stdout"
    using py_slice_nat [of "split_on (CHR 0x0A) stdout" 3 m] by (simp add: data_lines_def)
  show ?thesis unfolding run_msfan_nocorr_def Let_def s by (rule checked_data_lines [OF assms])
qed

lemma run_msfan_ok:
  assumes "well_formed 3 m stdout"
  shows "run_msfan (int m) stdout =
           Inr \<lparr>selected = zero_based (data_lines 3 m stdout), pdb_entered = (m = 0)\<rparr>"
proof -
  have s: "py_slice (split_on (CHR 0x0A) stdout) 3 (3 + int m) = data_lines 3 m stdout"
    using py_slice_nat [of "split_on (CHR 0x0A) stdout" 3 m] by (simp add: data_lines_def)
  show ?thesis unfolding run_msfan_def Let_def s by (rule checked_data_lines [OF assms])
qed

lemmas adapter_defs =
  py_slice_def parse_lines_def parse_line_def split_ws_def is_space_def py_int_def
  unsigned_int_def digit_val_def check_sel_list_def

lemma run_msfan_example:
  "run_msfan 2 ''h1\<newline>h2\<newline>h3\<newline>1 3 5\<newline>2 4\<newline>'' =
     Inr \<lparr>selected = [[0, 2, 4], [1, 3]], pdb_entered = False\<rparr>"
  by (simp add: run_msfan_def adapter_defs)

lemma run_msfan_nocorr_example:
  "run_msfan_nocorr 2 ''h1\<newline>h2\<newline>h3\<newline>1 3 5\<newline>2 4\<newline>'' =
     Inr \<lparr>selected = [[0, 2, 4], [1, 3]], pdb_entered = False\<rparr>"
  by (simp add: run_msfan_nocorr_def adapter_defs)

text \<open>
  C5. On an output with at least \<open>h + num_tasks\<close> lines whose data lines hold integer
  literals, every adapter skips \<open>h\<close> lines (\<open>h = 2\<close> for \<open>run_sfan\<close>, \<open>h = 3\<close> for
  \<open>run_msfan_nocorr\<close> and \<open>run_msfan\<close>), reads exactly the next \<open>num_tasks\<close> lines and
  returns, for each of them in order, its whitespace-separated indices decreased by 1.
  For three header lines followed by \<open>1 3 5\<close> and \<open>2 4\<close> and two tasks, the result is
  \<open>[[0, 2, 4], [1, 3]]\<close>: position \<open>t\<close> of the list is task \<open>t\<close>.
\<close>

theorem adapter_parses_data_lines:
  "(well_formed 2 m out2 \<longrightarrow>
      run_sfan (int m) out2 =
        Inr \<lparr>selected = zero_based (data_lines 2 m out2), pdb_entered = (m = 0)\<rparr>
      \<and> length (zero_based (data_lines 2 m out2)) = m)
   \<and> (well_formed 3 m out3 \<longrightarrow>
        run_msfan_nocorr (int m) out3 =
          Inr \<lparr>selected = zero_based (data_lines 3 m out3), pdb_entered = (m = 0)\<rparr>
        \<and> run_msfan (int m) out3 =
          Inr \<lparr>selected = zero_based (data_lines 3 m out3), pdb_entered = (m = 0)\<rparr>
        \<and> length (zero_based (data_lines 3 m out3)) = m)
   \<and> run_msfan 2 ''h1\<newline>h2\<newline>h3\<newline>1 3 5\<newline>2 4\<newline>'' =
        Inr \<lparr>selected = [[0, 2, 4], [1, 3]], pdb_entered = False\<rparr>
   \<and> run_msfan_nocorr 2 ''h1\<newline>h2\<newline>h3\<newline>1 3 5\<newline>2 4\<newline>'' =
        Inr \<lparr>selected = [[0, 2, 4], [1, 3]], pdb_entered = False\<rparr>"
proof -
  have len: "\<And>h stdout. well_formed h m stdout \<Longrightarrow> length (zero_based (data_lines h m stdout)) = m"
    by (auto simp: zero_based_def well_formed_def data_lines_def)
  show ?thesis
    using run_sfan_ok [of m out2] run_msfan_nocorr_ok [of m out3] run_msfan_ok [of m out3]
      len [of 2 out2] len [of 3 out3] run_msfan_example run_msfan_nocorr_example
    by blast
qed

theorem adapter_parses_data_lines_witness:
  "well_formed 2 2 ''h1\<newline>h2\<newline>1 3 5\<newline>2 4\<newline>''
   \<and> well_formed 3 2 ''h1\<newline>h2\<newline>h3\<newline>10 7\<newline>2\<newline>''
   \<and> run_sfan 2 ''h1\<newline>h2\<newline>1 3 5\<newline>2 4\<newline>'' =
        Inr \<lparr>selected = [[0, 2, 4], [1, 3]], pdb_entered = False\<rparr>
   \<and> run_msfan_nocorr 2 ''h1\<newline>h2\<newline>h3\<newline>10 7\<newline>2\<newline>'' =
        Inr \<lparr>selected = [[9, 6], [1]], pdb_entered = False\<rparr>
   \<and> run_msfan 2 ''h1\<newline>h2\<newline>h3\<newline>10 7\<newline>2\<newline>'' =
        Inr \<lparr>selected = [[9, 6], [1]], pdb_entered = False\<rparr>"
proof -
  have w2: "well_formed 2 2 ''h1\<newline>h2\<newline>1 3 5\<newline>2 4\<newline>''"
    by (simp add: well_formed_def data_lines_def adapter_defs)
  have w3: "well_formed 3 2 ''h1\<newline>h2\<newline>h3\<newline>10 7\<newline>2\<newline>''"
    by (simp add: well_formed_def data_lines_def adapter_defs)
  have z2: "zero_based (data_lines 2 2 ''h1\<newline>h2\<newline>1 3 5\<newline>2 4\<newline>'') = [[0, 2, 4], [1, 3]]"
    by (simp add: zero_based_def data_lines_def adapter_defs)
  have z3: "zero_based (data_lines 3 2 ''h1\<newline>h2\<newline>h3\<newline>10 7\<newline>2\<newline>'') = [[9, 6], [1]]"
    by (simp add: zero_based_def data_lines_def adapter_defs)
  show ?thesis
    using adapter_parses_data_lines
            [of 2 "''h1\<newline>h2\<newline>1 3 5\<newline>2 4\<newline>''"
                  "''h1\<newline>h2\<newline>h3\<newline>10 7\<newline>2\<newline>''"]
      w2 w3 z2 z3
    by simp
qed

text \<open>
  C4 (what the source does on the failing inputs). When the solver prints nothing, the
  slice is empty: the adapter enters the interactive debugger and afterwards returns
  the empty list. When one data line is missing, or a task's line is blank, the adapter
  returns the shorter list, or a list with an empty selection, and reports nothing.
\<close>

theorem adapter_empty_selection_examples:
  "run_msfan 2 '''' = Inr \<lparr>selected = [], pdb_entered = True\<rparr>
   \<and> run_msfan_nocorr 2 '''' = Inr \<lparr>selected = [], pdb_entered = True\<rparr>
   \<and> run_sfan 2 '''' = Inr \<lparr>selected = [], pdb_entered = True\<rparr>
   \<and> run_msfan 2 ''h1\<newline>h2\<newline>h3\<newline>1 3 5'' =
        Inr \<lparr>selected = [[0, 2, 4]], pdb_entered = False\<rparr>
   \<and> run_msfan 2 ''h1\<newline>h2\<newline>h3\<newline>1 3 5\<newline>\<newline>'' =
        Inr \<lparr>selected = [[0, 2, 4], []], pdb_entered = False\<rparr>"
  by (simp add: run_msfan_def run_msfan_nocorr_def run_sfan_def adapter_defs)

subsection \<open>The hyperparameter selector\<close>













subsection \<open>The index partition\<close>

lemma ss_loop_append: "ss_loop ss acc = acc @ map fst ss"
  by (induction ss acc rule: ss_loop.induct) simp_all

lemma length_kfold_iter: "length (kfold_iter n fold_sizes current) = length fold_sizes"
  by (induction n fold_sizes current rule: kfold_iter.induct) (simp_all add: Let_def)

lemma length_KFold: "KFold n f = Inr kf \<Longrightarrow> length kf = nat f"
  by (auto simp: KFold_def Let_def length_kfold_iter split: if_splits)

text \<open>
  The outer loop over \<open>enumerate(kf)\<close>: every fold index it visits gets the fold's
  training and test indices, and the training indices of \<^emph>\<open>all\<close> folds of \<open>ss\<close>
  appended to its subsample list; the other entries stay as they are.
\<close>

lemma fold_loop_enumerate:
  assumes "KFold (num_samples self) (num_folds self) = Inr ss"
    and "\<forall>i. k \<le> i \<and> i < k + length rest \<longrightarrow> xp_indices self i \<noteq> None"
  shows "\<exists>self'. fold_loop self (enumerate k rest) = Inr self'
           \<and> (\<forall>i. xp_indices self' i =
                 (if k \<le> i \<and> i < k + length rest
                  then Some \<lparr>trIndices = Some (fst (rest ! (i - k))),
                             teIndices = Some (snd (rest ! (i - k))),
                             ssIndices = ssIndices (the (xp_indices self i)) @ map fst ss\<rparr>
                  else xp_indices self i))"
  using assms
proof (induction rest arbitrary: self k)
  case Nil
  show ?case by auto
next
  case (Cons a rest)
  obtain tr te where a: "a = (tr, te)" by (cases a)
  obtain entry where entry: "xp_indices self k = Some entry"
    using Cons.prems(2) by fastforce
  let ?new = "\<lparr>trIndices = Some tr, teIndices = Some te,
               ssIndices = ss_loop ss (ssIndices entry)\<rparr>"
  let ?self1 = "self\<lparr>xp_indices := (xp_indices self)(k \<mapsto> ?new)\<rparr>"
  have K1: "KFold (num_samples ?self1) (num_folds ?self1) = Inr ss"
    using Cons.prems(1) by simp
  have D1: "\<forall>i. Suc k \<le> i \<and> i < Suc k + length rest \<longrightarrow> xp_indices ?self1 i \<noteq> None"
    using Cons.prems(2) by simp
  from Cons.IH [OF K1 D1] obtain self' where
    run: "fold_loop ?self1 (enumerate (Suc k) rest) = Inr self'" and
    map: "\<forall>i. xp_indices self' i =
                 (if Suc k \<le> i \<and> i < Suc k + length rest
                  then Some \<lparr>trIndices = Some (fst (rest ! (i - Suc k))),
                             teIndices = Some (snd (rest ! (i - Suc k))),
                             ssIndices = ssIndices (the (xp_indices ?self1 i)) @ map fst ss\<rparr>
                  else xp_indices ?self1 i)"
    by blast
  have step: "fold_loop self (enumerate k (a # rest)) = Inr self'"
    using run by (simp add: a entry Cons.prems(1))
  have "xp_indices self' i =
          (if k \<le> i \<and> i < k + length (a # rest)
           then Some \<lparr>trIndices = Some (fst ((a # rest) ! (i - k))),
                      teIndices = Some (snd ((a # rest) ! (i - k))),
                      ssIndices = ssIndices (the (xp_indices self i)) @ map fst ss\<rparr>
           else xp_indices self i)" for i
  proof (cases "i = k")
    case True
    then show ?thesis using map by (simp add: a entry ss_loop_append)
  next
    case False
    show ?thesis
    proof (cases "Suc k \<le> i \<and> i < Suc k + length rest")
      case True
      then have "i - k = Suc (i - Suc k)" by arith
      then have "(a # rest) ! (i - k) = rest ! (i - Suc k)" by simp
      then show ?thesis using map True False by simp
    next
      case False
      then show ?thesis using map \<open>i \<noteq> k\<close> by auto
    qed
  qed
  then show ?case using step by blast
qed

text \<open>
  On a freshly constructed \<open>Framework\<close> with an accepted configuration, fold \<open>i\<close> ends
  with one subsample list per fold of the \<^emph>\<open>whole\<close> sample set: \<open>num_folds\<close> lists,
  list \<open>j\<close> being the training indices of fold \<open>j\<close>; \<open>num_subsamples\<close> is never read.
\<close>

lemma compute_indices_fresh:
  assumes "KFold n_samples n_folds = Inr kf" and "i < length kf"
  shows "fold_after (Framework n_samples n_folds n_subsamples) seed i =
           Some \<lparr>trIndices = Some (fst (kf ! i)), teIndices = Some (snd (kf ! i)),
                 ssIndices = map fst kf\<rparr>"
proof -
  let ?self = "Framework n_samples n_folds n_subsamples"
  have K: "KFold (num_samples ?self) (num_folds ?self) = Inr kf"
    using assms(1) by (simp add: Framework_def)
  have len: "length kf = nat n_folds" by (rule length_KFold [OF assms(1)])
  have D: "\<forall>i. 0 \<le> i \<and> i < 0 + length kf \<longrightarrow> xp_indices ?self i \<noteq> None"
    using len by (auto simp: Framework_def)
  from fold_loop_enumerate [OF K D] obtain self' where
    run: "fold_loop ?self (enumerate 0 kf) = Inr self'" and
    map: "\<forall>i. xp_indices self' i =
                 (if 0 \<le> i \<and> i < 0 + length kf
                  then Some \<lparr>trIndices = Some (fst (kf ! (i - 0))),
                             teIndices = Some (snd (kf ! (i - 0))),
                             ssIndices = ssIndices (the (xp_indices ?self i)) @ map fst kf\<rparr>
                  else xp_indices ?self i)"
    by blast
  have "int i < n_folds" using assms(2) len by linarith
  then have e: "ssIndices (the (xp_indices ?self i)) = []" by (simp add: Framework_def)
  have "compute_indices ?self seed = Inr self'"
    using run K by (simp add: compute_indices_def)
  then show ?thesis using map assms(2) e by (simp add: fold_after_def)
qed

text \<open>
  C2 (what the source does on the failing input). Four samples, two folds, three
  subsamples: fold 0 has test indices \<open>[0, 1]\<close> and training indices \<open>[2, 3]\<close>, and it gets
  two subsample lists, not three; they are the training halves \<open>[2, 3]\<close> and \<open>[0, 1]\<close> of
  the two folds of all four samples, and the second one is the fold's own test set.
\<close>

theorem compute_indices_subsamples_example:
  "fold_after (Framework 4 2 3) None 0 =
     Some \<lparr>trIndices = Some [2, 3], teIndices = Some [0, 1], ssIndices = [[2, 3], [0, 1]]\<rparr>
   \<and> fold_after (Framework 4 2 3) None 1 =
     Some \<lparr>trIndices = Some [0, 1], teIndices = Some [2, 3], ssIndices = [[2, 3], [0, 1]]\<rparr>
   \<and> num_subsamples (Framework 4 2 3) = 3"
proof -
  have K: "KFold 4 2 = Inr [([2, 3], [0, 1]), ([0, 1], [2, 3])]"
    by (simp add: KFold_def Let_def upt_rec)
  show ?thesis
    using compute_indices_fresh [OF K, of 0 3 None] compute_indices_fresh [OF K, of 1 3 None]
    by (simp add: Framework_def)
qed

text \<open>
  C10. \<open>compute_indices\<close> never reads its \<open>seed\<close> argument: for every object and any two
  seeds, \<open>None\<close> included, the two calls end alike, with the same entry for every fold, or
  with the same exception.
\<close>

theorem compute_indices_seed_independent:
  "compute_indices self s1 = compute_indices self s2
   \<and> fold_after (Framework n_samples n_folds n_subsamples) s1 i
     = fold_after (Framework n_samples n_folds n_subsamples) s2 i"
  by (simp add: compute_indices_def fold_after_def)

subsection \<open>The performance scorer\<close>

text \<open>
  C8 (what the source does). \<open>compute_ppv_sensitivity\<close> computes nothing: for every file
  name and every list of selections, those of the example included, it ends with
  \<open>NameError\<close>.
\<close>

theorem compute_ppv_sensitivity_unimplemented:
  "compute_ppv_sensitivity causal_fname selected_list = Inl NameError
   \<and> compute_ppv_sensitivity ''causal_features.txt'' [[2, 3, 4]] = Inl NameError"
  by (simp add: compute_ppv_sensitivity_def)

end
